theory Spec2Isabelle
  imports Main "HOL-Library.Word"
begin

unbundle bit_operations_syntax

section \<open>NAND flash reader over two bit-banged FT2232 buses (bitbang\_ft2232.c)\<close>

subsection \<open>Constants and types\<close>

text \<open>
  \<^verbatim>\<open>unsigned char\<close> is an 8-bit word, \<^verbatim>\<open>uint32_t\<close> and \<^verbatim>\<open>unsigned int\<close> are 32-bit
  words. The pin masks and command opcodes are the \<^verbatim>\<open>#define\<close>s and \<^verbatim>\<open>const\<close>s
  at the head of the source file. \<^verbatim>\<open>EXIT_FAILURE\<close> comes from \<^verbatim>\<open>stdlib.h\<close>, where it is 1.
\<close>

type_synonym byte = "8 word"

definition PIN_CLE :: byte where "PIN_CLE = 0x01"
definition PIN_ALE :: byte where "PIN_ALE = 0x02"
definition PIN_nCE :: byte where "PIN_nCE = 0x04"
definition PIN_nWE :: byte where "PIN_nWE = 0x08"
definition PIN_nRE :: byte where "PIN_nRE = 0x10"
definition PIN_nWP :: byte where "PIN_nWP = 0x20"
definition PIN_RDY :: byte where "PIN_RDY = 0x40"
definition PIN_LED :: byte where "PIN_LED = 0x80"

definition STATUSREG_IO0 :: byte where "STATUSREG_IO0 = 0x01"

definition EXIT_FAILURE :: int where "EXIT_FAILURE = 1"

definition CMD_READID :: byte where "CMD_READID = 0x90"
definition CMD_READ1 :: "byte list" where "CMD_READ1 = [0x00, 0x30]"
definition CMD_BLOCKERASE :: "byte list" where "CMD_BLOCKERASE = [0x60, 0xD0]"
definition CMD_READSTATUS :: byte where "CMD_READSTATUS = 0x70"

datatype onoff_t = OFF | ON
datatype iobus_inout_t = IOBUS_IN | IOBUS_OUT

subsection \<open>Program state and the hardware boundary\<close>

text \<open>
  The two globals \<^verbatim>\<open>iobus_value\<close> and \<^verbatim>\<open>controlbus_value\<close> are fields of the state.
  The FTDI library is the boundary of the model: every call that reaches it is recorded,
  in order, in \<open>hw_trace\<close>, and the bit mode it last set on the I/O channel is kept in
  \<open>iobus_direction\<close>. What \<^verbatim>\<open>ftdi_read_pins\<close> delivers is given by the environment:
  \<open>iobus_pins s k\<close> is the byte of the \<open>k\<close>-th read of the I/O channel,
  \<open>controlbus_pins s k\<close> that of the \<open>k\<close>-th read of the control channel, and the two
  counters say how many reads have happened. The return codes of the FTDI calls are
  ignored by the source and are not modelled; \<^verbatim>\<open>usleep\<close> and the console output change
  nothing in the state and are left out.
\<close>

datatype hw_event =
    CTRL_WRITE byte
  | IO_WRITE byte
  | IO_SET_DIRECTION iobus_inout_t
  | IO_READ_PINS
  | CTRL_READ_PINS

record nand_state =
  iobus_value :: byte
  controlbus_value :: byte
  iobus_direction :: iobus_inout_t
  hw_trace :: "hw_event list"
  iobus_pins :: "nat \<Rightarrow> byte"
  iobus_reads :: nat
  controlbus_pins :: "nat \<Rightarrow> byte"
  controlbus_reads :: nat

subsection \<open>Control bus and I/O bus accessors\<close>

definition controlbus_reset_value :: "nand_state \<Rightarrow> nand_state" where
  "controlbus_reset_value s = s\<lparr>controlbus_value := 0x00\<rparr>"

definition controlbus_pin_set :: "byte \<Rightarrow> onoff_t \<Rightarrow> nand_state \<Rightarrow> nand_state" where
  "controlbus_pin_set pin val s =
     (if val = ON then s\<lparr>controlbus_value := controlbus_value s OR pin\<rparr>
      else s\<lparr>controlbus_value := controlbus_value s AND (0xFF XOR pin)\<rparr>)"

definition controlbus_update_output :: "nand_state \<Rightarrow> nand_state" where
  "controlbus_update_output s = s\<lparr>hw_trace := hw_trace s @ [CTRL_WRITE (controlbus_value s)]\<rparr>"

definition iobus_set_direction :: "iobus_inout_t \<Rightarrow> nand_state \<Rightarrow> nand_state" where
  "iobus_set_direction inout s =
     (if inout = IOBUS_OUT
      then s\<lparr>iobus_direction := IOBUS_OUT, hw_trace := hw_trace s @ [IO_SET_DIRECTION IOBUS_OUT]\<rparr>
      else if inout = IOBUS_IN
      then s\<lparr>iobus_direction := IOBUS_IN, hw_trace := hw_trace s @ [IO_SET_DIRECTION IOBUS_IN]\<rparr>
      else s)"

definition iobus_reset_value :: "nand_state \<Rightarrow> nand_state" where
  "iobus_reset_value s = s\<lparr>iobus_value := 0x00\<rparr>"

definition iobus_pin_set :: "byte \<Rightarrow> onoff_t \<Rightarrow> nand_state \<Rightarrow> nand_state" where
  "iobus_pin_set pin val s =
     (if val = ON then s\<lparr>iobus_value := iobus_value s OR pin\<rparr>
      else s\<lparr>iobus_value := iobus_value s AND (0xFF XOR pin)\<rparr>)"

definition iobus_set_value :: "byte \<Rightarrow> nand_state \<Rightarrow> nand_state" where
  "iobus_set_value v s = s\<lparr>iobus_value := v\<rparr>"

definition iobus_update_output :: "nand_state \<Rightarrow> nand_state" where
  "iobus_update_output s = s\<lparr>hw_trace := hw_trace s @ [IO_WRITE (iobus_value s)]\<rparr>"

definition iobus_read_input :: "nand_state \<Rightarrow> byte \<times> nand_state" where
  "iobus_read_input s =
     (iobus_pins s (iobus_reads s),
      s\<lparr>iobus_reads := iobus_reads s + 1, hw_trace := hw_trace s @ [IO_READ_PINS]\<rparr>)"

definition controlbus_read_input :: "nand_state \<Rightarrow> byte \<times> nand_state" where
  "controlbus_read_input s =
     (controlbus_pins s (controlbus_reads s),
      s\<lparr>controlbus_reads := controlbus_reads s + 1, hw_trace := hw_trace s @ [CTRL_READ_PINS]\<rparr>)"

subsection \<open>Address cycle map\<close>

text \<open>
  \<^verbatim>\<open>get_address_cycle_map_x8\<close> fills the five entries of the caller's array; the model
  returns them as a list. The cast to \<^verbatim>\<open>unsigned char\<close> is \<open>ucast\<close>.
\<close>

definition get_address_cycle_map_x8 :: "32 word \<Rightarrow> byte list" where
  "get_address_cycle_map_x8 mem_address =
     [ucast (mem_address AND 0x000000FF),
      ucast (drop_bit 8 (mem_address AND 0x00000F00)),
      ucast (drop_bit 12 (mem_address AND 0x000FF000)),
      ucast (drop_bit 20 (mem_address AND 0x0FF00000)),
      ucast (drop_bit 28 (mem_address AND 0x30000000))]"

subsection \<open>The three latch primitives\<close>

text \<open>
  Each primitive first checks the held control byte and returns \<^verbatim>\<open>EXIT_FAILURE\<close> without
  touching anything when a pin is not as required; otherwise it runs its pin sequence and
  returns 0. In C the tests are \<^verbatim>\<open>controlbus_value & PIN\<close> (pin high) and
  \<^verbatim>\<open>~controlbus_value & PIN\<close> (pin low), read as booleans.
\<close>

definition latch_command :: "byte \<Rightarrow> nand_state \<Rightarrow> int \<times> nand_state" where
  "latch_command command s =
     (if controlbus_value s AND PIN_nCE \<noteq> 0 then (EXIT_FAILURE, s)
      else if NOT (controlbus_value s) AND PIN_nRE \<noteq> 0 then (EXIT_FAILURE, s)
      else
        let s = controlbus_pin_set PIN_CLE ON s;
            s = controlbus_update_output s;
            s = controlbus_pin_set PIN_nWE OFF s;
            s = controlbus_update_output s;
            s = iobus_set_value command s;
            s = iobus_update_output s;
            s = controlbus_pin_set PIN_nWE ON s;
            s = controlbus_update_output s;
            s = controlbus_pin_set PIN_CLE OFF s;
            s = controlbus_update_output s
        in (0, s))"

text \<open>
  The loops of \<^verbatim>\<open>latch_address\<close> and \<^verbatim>\<open>latch_register\<close> count an \<^verbatim>\<open>unsigned int\<close>
  index from 0 while it is below the length; the index never exceeds the length, so it
  cannot wrap, and the model counts in \<open>nat\<close> up to \<open>unat\<close> of the length. Both
  functions index the caller's array below the given length; every call in the source
  passes an array of exactly that many bytes. An access past the array is undefined in C
  and no statement below is made about it (the hypotheses on the array lengths exclude it).
\<close>

definition latch_address_body :: "byte list \<Rightarrow> nat \<Rightarrow> nand_state \<Rightarrow> nand_state" where
  "latch_address_body address addr_idx s =
     (let s = controlbus_pin_set PIN_nWE OFF s;
          s = controlbus_update_output s;
          s = iobus_set_value (address ! addr_idx) s;
          s = iobus_update_output s;
          s = controlbus_pin_set PIN_nWE ON s;
          s = controlbus_update_output s
      in s)"

function latch_address_loop :: "byte list \<Rightarrow> nat \<Rightarrow> nat \<Rightarrow> nand_state \<Rightarrow> nand_state" where
  "latch_address_loop address addr_length addr_idx s =
     (if addr_idx < addr_length
      then latch_address_loop address addr_length (addr_idx + 1)
             (latch_address_body address addr_idx s)
      else s)"
  by pat_completeness auto
termination
  by (relation "measure (\<lambda>(address, addr_length, addr_idx, s). addr_length - addr_idx)") auto

declare latch_address_loop.simps [simp del]

definition latch_address :: "byte list \<Rightarrow> 32 word \<Rightarrow> nand_state \<Rightarrow> int \<times> nand_state" where
  "latch_address address addr_length s =
     (if controlbus_value s AND PIN_nCE \<noteq> 0 then (EXIT_FAILURE, s)
      else if controlbus_value s AND PIN_CLE \<noteq> 0 then (EXIT_FAILURE, s)
      else if NOT (controlbus_value s) AND PIN_nRE \<noteq> 0 then (EXIT_FAILURE, s)
      else
        let s = controlbus_pin_set PIN_ALE ON s;
            s = controlbus_update_output s;
            s = latch_address_loop address (unat addr_length) 0 s;
            s = controlbus_pin_set PIN_ALE OFF s;
            s = controlbus_update_output s
        in (0, s))"

text \<open>
  \<^verbatim>\<open>latch_register\<close> writes the sampled bytes into the caller's array \<open>reg\<close>; the model
  takes the array as it is on entry and returns it as it is on exit.
\<close>

definition latch_register_body :: "nat \<Rightarrow> byte list \<times> nand_state \<Rightarrow> byte list \<times> nand_state" where
  "latch_register_body addr_idx rs =
     (let reg = fst rs; s = snd rs;
          s = controlbus_pin_set PIN_nRE OFF s;
          s = controlbus_update_output s;
          r = iobus_read_input s;
          reg = reg[addr_idx := fst r]; s = snd r;
          s = controlbus_pin_set PIN_nRE ON s;
          s = controlbus_update_output s
      in (reg, s))"

function latch_register_loop :: "nat \<Rightarrow> nat \<Rightarrow> byte list \<times> nand_state \<Rightarrow> byte list \<times> nand_state" where
  "latch_register_loop reg_length addr_idx rs =
     (if addr_idx < reg_length
      then latch_register_loop reg_length (addr_idx + 1) (latch_register_body addr_idx rs)
      else rs)"
  by pat_completeness auto
termination
  by (relation "measure (\<lambda>(reg_length, addr_idx, rs). reg_length - addr_idx)") auto

declare latch_register_loop.simps [simp del]

definition latch_register :: "byte list \<Rightarrow> 32 word \<Rightarrow> nand_state \<Rightarrow> int \<times> byte list \<times> nand_state" where
  "latch_register reg reg_length s =
     (if controlbus_value s AND PIN_nCE \<noteq> 0 then (EXIT_FAILURE, reg, s)
      else if NOT (controlbus_value s) AND PIN_nWE \<noteq> 0 then (EXIT_FAILURE, reg, s)
      else if controlbus_value s AND PIN_ALE \<noteq> 0 then (EXIT_FAILURE, reg, s)
      else
        let s = iobus_set_direction IOBUS_IN s;
            rs = latch_register_loop (unat reg_length) 0 (reg, s);
            s = iobus_set_direction IOBUS_OUT (snd rs)
        in (0, fst rs, s))"

subsection \<open>Waiting for the ready line\<close>

text \<open>
  The same \<^verbatim>\<open>do { controlbus_val = controlbus_read_input(); } while( !(controlbus_val & PIN_RDY) );\<close>
  stands in \<^verbatim>\<open>dump_memory\<close> and in \<^verbatim>\<open>erase_block\<close>. It has no bound, so it is a partial
  function: \<open>None\<close> is the loop that never ends.
\<close>

partial_function (option) busy_wait :: "nand_state \<Rightarrow> nand_state option" where
  "busy_wait s =
     (let r = controlbus_read_input s
      in if fst r AND PIN_RDY = 0 then busy_wait (snd r) else Some (snd r))"

declare busy_wait.simps [code]

subsection \<open>ID register check\<close>

text \<open>
  \<^verbatim>\<open>strncmp\<close> of the C library: it compares at most \<open>n\<close> characters as
  \<^verbatim>\<open>unsigned char\<close> and stops behind a NUL. The last equation (an array shorter than
  \<open>n\<close> with no NUL) is not reached from the source, where both arrays have five bytes.
\<close>

fun strncmp :: "byte list \<Rightarrow> byte list \<Rightarrow> nat \<Rightarrow> int" where
  "strncmp s1 s2 0 = 0"
| "strncmp (c1 # s1) (c2 # s2) (Suc n) =
     (if c1 \<noteq> c2 then uint c1 - uint c2
      else if c1 = 0 then 0
      else strncmp s1 s2 n)"
| "strncmp s1 s2 (Suc n) = 0"

text \<open>\<^verbatim>\<open>check_ID_register\<close> returns nothing; its outcome is the line it prints.\<close>

datatype id_report = PASS | FAIL

definition ID_register_exp :: "byte list" where
  "ID_register_exp = [0xAD, 0xDC, 0x10, 0x95, 0x54]"

definition check_ID_register :: "byte list \<Rightarrow> id_report" where
  "check_ID_register ID_register =
     (if strncmp ID_register_exp ID_register 5 = 0 then PASS else FAIL)"

subsection \<open>Reading a page and erasing a block\<close>

text \<open>
  One round of the loop of \<^verbatim>\<open>dump_memory\<close>, from \<^verbatim>\<open>get_address_cycle_map_x8\<close> to
  \<^verbatim>\<open>latch_register(mem_large_block, 2112)\<close>. The return codes of the primitives are
  dropped, as in the source. The result is the page buffer and the state.
\<close>

definition dump_memory_page ::
    "32 word \<Rightarrow> byte list \<Rightarrow> nand_state \<Rightarrow> (byte list \<times> nand_state) option" where
  "dump_memory_page mem_address mem_large_block s =
     (let addr_cylces = get_address_cycle_map_x8 mem_address;
          s = snd (latch_command (CMD_READ1 ! 0) s);
          s = snd (latch_address addr_cylces 5 s);
          s = snd (latch_command (CMD_READ1 ! 1) s)
      in case busy_wait s of
           None \<Rightarrow> None
         | Some s \<Rightarrow>
             (let r = latch_register mem_large_block 2112 s
              in Some (fst (snd r), snd (snd r))))"

text \<open>
  \<^verbatim>\<open>erase_block\<close>. The local \<^verbatim>\<open>status_register\<close> is not initialised in the source; its
  value on entry is the parameter \<open>status_register\<close>, and it keeps that value when
  \<^verbatim>\<open>latch_register\<close> fails. The result is the return value, the status byte that the
  function prints, and the state.
\<close>

definition erase_block ::
    "32 word \<Rightarrow> byte \<Rightarrow> nand_state \<Rightarrow> (int \<times> byte \<times> nand_state) option" where
  "erase_block nBlockId status_register s =
     (let mem_address = 2048 * 64 * nBlockId;
          s = controlbus_pin_set PIN_nWP ON s;
          s = snd (latch_command (CMD_BLOCKERASE ! 0) s);
          addr_cylces = get_address_cycle_map_x8 mem_address;
          address = [addr_cylces ! 2, addr_cylces ! 3, addr_cylces ! 4];
          s = snd (latch_address address 3 s);
          s = snd (latch_command (CMD_BLOCKERASE ! 1) s)
      in case busy_wait s of
           None \<Rightarrow> None
         | Some s \<Rightarrow>
             (let s = snd (latch_command CMD_READSTATUS s);
                  r = latch_register [status_register] 1 s;
                  status_register = fst (snd r) ! 0;
                  s = snd (snd r);
                  s = controlbus_pin_set PIN_nWP OFF s
              in if status_register AND STATUSREG_IO0 \<noteq> 0
                 then Some (1, status_register, s)
                 else Some (0, status_register, s)))"

subsection \<open>The start of \<^verbatim>\<open>main\<close>\<close>

text \<open>
  \<open>main_setup\<close> is \<^verbatim>\<open>main\<close> from \<^verbatim>\<open>controlbus_reset_value()\<close> to the flush that sets nRE
  high and nCE and nWP low, once both channels are open; \<open>main_read_ID\<close> is the block
  that follows it and reads and checks the ID register. The array \<^verbatim>\<open>ID_register\<close> is not
  initialised in the source; its content on entry is a parameter.
\<close>

definition main_setup :: "nand_state \<Rightarrow> nand_state" where
  "main_setup s =
     (let s = controlbus_reset_value s;
          s = controlbus_update_output s;
          s = iobus_set_direction IOBUS_OUT s;
          s = iobus_reset_value s;
          s = iobus_update_output s;
          s = iobus_set_direction IOBUS_IN s;
          s = snd (iobus_read_input s);
          s = snd (controlbus_read_input s);
          s = iobus_set_direction IOBUS_OUT s;
          s = controlbus_pin_set PIN_nRE ON s;
          s = controlbus_pin_set PIN_nCE OFF s;
          s = controlbus_pin_set PIN_nWP OFF s;
          s = controlbus_update_output s
      in s)"

definition main_read_ID :: "byte list \<Rightarrow> nand_state \<Rightarrow> id_report \<times> byte list \<times> nand_state" where
  "main_read_ID ID_register s =
     (let s = snd (latch_command CMD_READID s);
          address = [0x00];
          s = snd (latch_address address 1 s);
          r = latch_register ID_register 5 s
      in (check_ID_register (fst (snd r)), fst (snd r), snd (snd r)))"

subsection \<open>The bus sequences as the specification words them\<close>

text \<open>
  The specification describes each latch primitive by the flushes it makes. These three
  definitions follow its words, not the code; \<open>c\<close> is the control byte held when the
  primitive starts. They are compared with the code in the lemmas \<open>latch_command_ok\<close>,
  \<open>latch_address_ok\<close> and \<open>latch_register_ok\<close>.

  \<^item> latchCommand: set CLE high, flush; set nWE low, flush; write the opcode to the data
    bus, flush; set nWE high, flush; set CLE low, flush.
  \<^item> latchAddress: set ALE high, flush; for each byte in order: set nWE low, flush;
    write the byte, flush; set nWE high, flush; after all bytes: set ALE low, flush.
  \<^item> latchDataOut: switch the data bus to input; for each of \<open>count\<close> rounds: set nRE
    low, flush; sample the data bus; set nRE high, flush; then restore the data bus to
    output.
\<close>

definition latchCommand_events :: "byte \<Rightarrow> byte \<Rightarrow> hw_event list" where
  "latchCommand_events c opcode =
     [CTRL_WRITE (c OR PIN_CLE),
      CTRL_WRITE ((c OR PIN_CLE) AND NOT PIN_nWE),
      IO_WRITE opcode,
      CTRL_WRITE ((c OR PIN_CLE) OR PIN_nWE),
      CTRL_WRITE ((c OR PIN_nWE) AND NOT PIN_CLE)]"

definition latchAddress_events :: "byte \<Rightarrow> byte list \<Rightarrow> hw_event list" where
  "latchAddress_events c bytes =
     [CTRL_WRITE (c OR PIN_ALE)]
     @ concat (map (\<lambda>b. [CTRL_WRITE ((c OR PIN_ALE) AND NOT PIN_nWE),
                         IO_WRITE b,
                         CTRL_WRITE ((c OR PIN_ALE) OR PIN_nWE)]) bytes)
     @ [CTRL_WRITE ((if bytes = [] then c else c OR PIN_nWE) AND NOT PIN_ALE)]"

definition latchDataOut_events :: "byte \<Rightarrow> nat \<Rightarrow> hw_event list" where
  "latchDataOut_events c count =
     [IO_SET_DIRECTION IOBUS_IN]
     @ concat (replicate count
         [CTRL_WRITE (c AND NOT PIN_nRE), IO_READ_PINS, CTRL_WRITE (c OR PIN_nRE)])
     @ [IO_SET_DIRECTION IOBUS_OUT]"

subsection \<open>Observations on a state\<close>

text \<open>
  \<open>address_strobes\<close> and \<open>read_strobes\<close> are the events of the two loops alone.
  \<open>samples s n\<close> are the next \<open>n\<close> bytes the I/O channel will deliver, \<open>rdy_at s k\<close>
  says that the \<open>k\<close>-th coming read of the control channel shows RDY set, and
  \<open>polled s n\<close> is \<open>s\<close> after \<open>n\<close> reads of the control channel. \<open>io_writes\<close> and
  \<open>ctrl_writes\<close> pick the bytes written to either channel out of a trace.
\<close>

definition address_strobes :: "byte \<Rightarrow> byte list \<Rightarrow> hw_event list" where
  "address_strobes c bytes =
     concat (map (\<lambda>b. [CTRL_WRITE (c AND NOT PIN_nWE), IO_WRITE b, CTRL_WRITE (c OR PIN_nWE)]) bytes)"

definition read_strobes :: "byte \<Rightarrow> nat \<Rightarrow> hw_event list" where
  "read_strobes c count =
     concat (replicate count [CTRL_WRITE (c AND NOT PIN_nRE), IO_READ_PINS, CTRL_WRITE (c OR PIN_nRE)])"

definition samples :: "nand_state \<Rightarrow> nat \<Rightarrow> byte list" where
  "samples s count = map (\<lambda>k. iobus_pins s (iobus_reads s + k)) [0..<count]"

definition rdy_at :: "nand_state \<Rightarrow> nat \<Rightarrow> bool" where
  "rdy_at s k = (controlbus_pins s (controlbus_reads s + k) AND PIN_RDY \<noteq> 0)"

definition polled :: "nand_state \<Rightarrow> nat \<Rightarrow> nand_state" where
  "polled s n = s\<lparr>controlbus_reads := controlbus_reads s + n,
                   hw_trace := hw_trace s @ replicate n CTRL_READ_PINS\<rparr>"

fun io_writes :: "hw_event list \<Rightarrow> byte list" where
  "io_writes [] = []"
| "io_writes (IO_WRITE b # es) = b # io_writes es"
| "io_writes (e # es) = io_writes es"

fun ctrl_writes :: "hw_event list \<Rightarrow> byte list" where
  "ctrl_writes [] = []"
| "ctrl_writes (CTRL_WRITE b # es) = b # ctrl_writes es"
| "ctrl_writes (e # es) = ctrl_writes es"

subsection \<open>Concrete sessions\<close>

text \<open>
  \<open>session_start io ctrl\<close> is the state in which \<^verbatim>\<open>main\<close> reaches
  \<^verbatim>\<open>controlbus_reset_value()\<close>: both globals are zero, the I/O channel has been put in
  output mode, nothing has been read, and the device will answer with \<open>io\<close> and \<open>ctrl\<close>.
  \<open>id_device\<close> answers the ID read with the expected signature, \<open>blank_device\<close> with
  a zero byte in its second position. \<open>erase_ready status\<close> is the state after
  \<open>main_setup\<close> with a device that is always ready and returns \<open>status\<close>;
  \<open>page_ready\<close> is the state in which \<^verbatim>\<open>main\<close> calls \<^verbatim>\<open>dump_memory\<close>, after the
  set-up and the ID read, with a device that is busy for the first two polls.
\<close>

definition session_start :: "(nat \<Rightarrow> byte) \<Rightarrow> (nat \<Rightarrow> byte) \<Rightarrow> nand_state" where
  "session_start io ctrl =
     \<lparr>iobus_value = 0x00, controlbus_value = 0x00, iobus_direction = IOBUS_OUT, hw_trace = [],
      iobus_pins = io, iobus_reads = 0, controlbus_pins = ctrl, controlbus_reads = 0\<rparr>"

definition id_device :: "nat \<Rightarrow> byte" where
  "id_device k = (if k = 1 then 0xAD else if k = 2 then 0xDC else if k = 3 then 0x10
                  else if k = 4 then 0x95 else if k = 5 then 0x54 else 0x00)"

definition blank_device :: "nat \<Rightarrow> byte" where
  "blank_device k = (if k = 1 then 0xAD else if k = 2 then 0x00 else if k = 3 then 0x10
                  else if k = 4 then 0x95 else if k = 5 then 0x54 else 0x00)"

definition erase_ready :: "byte \<Rightarrow> nand_state" where
  "erase_ready status = main_setup (session_start (\<lambda>k. status) (\<lambda>k. 0x58))"

definition page_ready :: nand_state where
  "page_ready =
     snd (snd (main_read_ID [0, 0, 0, 0, 0]
       (main_setup (session_start (\<lambda>k. of_nat k) (\<lambda>k. if k < 3 then 0x18 else 0x58)))))"

section \<open>Auxiliary facts\<close>

lemmas pin_defs =
  PIN_CLE_def PIN_ALE_def PIN_nCE_def PIN_nWE_def PIN_nRE_def PIN_nWP_def
  PIN_RDY_def PIN_LED_def

lemma byte_ff: "(0xFF :: byte) = - 1" by simp

lemma xor_ff: "0xFF XOR (p::byte) = NOT p"
  unfolding byte_ff by simp

lemma or_and_self: "((x::byte) OR p) AND p = p"
  by (auto simp add: bit_eq_iff bit_simps)

lemma or_and_not: "((x::byte) OR p) AND NOT p = x AND NOT p"
  by (auto simp add: bit_eq_iff bit_simps)

lemma and_not_and_self: "((x::byte) AND NOT p) AND p = 0"
  by (auto simp add: bit_eq_iff bit_simps)

lemma and_not_or_self: "((x::byte) AND NOT p) OR p = x OR p"
  by (auto simp add: bit_eq_iff bit_simps)

lemma or_and_other: "p AND q = 0 \<Longrightarrow> ((x::byte) OR p) AND q = x AND q"
  by (simp add: bit.conj_disj_distrib2)

lemma and_not_and_other: "p AND q = 0 \<Longrightarrow> ((x::byte) AND NOT p) AND q = x AND q"
  by (auto simp add: bit_eq_iff bit_simps)

lemma or_or_and_not: "(((c::byte) OR p) OR q) AND NOT p = (c OR q) AND NOT p"
  by (auto simp add: bit_eq_iff bit_simps)

lemma pins_disjoint:
  "PIN_CLE AND PIN_nCE = 0" "PIN_CLE AND PIN_nRE = 0" "PIN_CLE AND PIN_nWE = 0"
  "PIN_CLE AND PIN_ALE = 0" "PIN_CLE AND PIN_nWP = 0"
  "PIN_nWE AND PIN_nCE = 0" "PIN_nWE AND PIN_nRE = 0" "PIN_nWE AND PIN_CLE = 0"
  "PIN_nWE AND PIN_ALE = 0" "PIN_nWE AND PIN_nWP = 0"
  "PIN_ALE AND PIN_nCE = 0" "PIN_ALE AND PIN_nRE = 0" "PIN_ALE AND PIN_nWE = 0"
  "PIN_ALE AND PIN_CLE = 0" "PIN_ALE AND PIN_nWP = 0"
  "PIN_nRE AND PIN_nCE = 0" "PIN_nRE AND PIN_CLE = 0" "PIN_nRE AND PIN_nWE = 0"
  "PIN_nRE AND PIN_ALE = 0" "PIN_nRE AND PIN_nWP = 0"
  "PIN_nWP AND PIN_nCE = 0" "PIN_nWP AND PIN_CLE = 0" "PIN_nWP AND PIN_nWE = 0"
  "PIN_nWP AND PIN_ALE = 0" "PIN_nWP AND PIN_nRE = 0"
  by (simp_all add: pin_defs)

lemma single_bit_low:
  "n < 8 \<Longrightarrow> (NOT (c::byte) AND 2 ^ n \<noteq> 0) = (c AND 2 ^ n = 0)"
  by (simp add: and_exp_eq_0_iff_not_bit bit_simps)

lemma pin_nRE_low: "(NOT (c::byte) AND PIN_nRE \<noteq> 0) = (c AND PIN_nRE = 0)"
  using single_bit_low [of 4 c] by (simp add: PIN_nRE_def)

lemma pin_nWE_low: "(NOT (c::byte) AND PIN_nWE \<noteq> 0) = (c AND PIN_nWE = 0)"
  using single_bit_low [of 3 c] by (simp add: PIN_nWE_def)

lemma pin_nonzero: "PIN_nRE \<noteq> 0" "PIN_nWE \<noteq> 0" "PIN_nCE \<noteq> 0" "PIN_CLE \<noteq> 0" "PIN_ALE \<noteq> 0"
  "PIN_nWP \<noteq> 0"
  by (simp_all add: pin_defs)

lemma latch_command_ok:
  assumes "controlbus_value s AND PIN_nCE = 0" and "controlbus_value s AND PIN_nRE \<noteq> 0"
  shows "latch_command command s =
    (0, s\<lparr>iobus_value := command,
          controlbus_value := (controlbus_value s OR PIN_nWE) AND NOT PIN_CLE,
          hw_trace := hw_trace s @ latchCommand_events (controlbus_value s) command\<rparr>)"
  using assms
  by (simp add: latch_command_def pin_nRE_low Let_def controlbus_pin_set_def
      controlbus_update_output_def iobus_set_value_def iobus_update_output_def xor_ff
      latchCommand_events_def and_not_or_self or_or_and_not)

lemma latch_address_body_eq:
  "latch_address_body address addr_idx s =
     s\<lparr>iobus_value := address ! addr_idx,
       controlbus_value := controlbus_value s OR PIN_nWE,
       hw_trace := hw_trace s @ [CTRL_WRITE (controlbus_value s AND NOT PIN_nWE),
                                 IO_WRITE (address ! addr_idx),
                                 CTRL_WRITE (controlbus_value s OR PIN_nWE)]\<rparr>"
  by (simp add: latch_address_body_def Let_def controlbus_pin_set_def
      controlbus_update_output_def iobus_set_value_def iobus_update_output_def xor_ff
      and_not_or_self)

lemma latch_address_loop_eq:
  "addr_idx \<le> n \<Longrightarrow> n \<le> length address \<Longrightarrow>
   latch_address_loop address n addr_idx s =
     s\<lparr>iobus_value := (if addr_idx < n then address ! (n - 1) else iobus_value s),
       controlbus_value := (if addr_idx < n then controlbus_value s OR PIN_nWE else controlbus_value s),
       hw_trace := hw_trace s @ address_strobes (controlbus_value s) (drop addr_idx (take n address))\<rparr>"
proof (induction address n addr_idx s rule: latch_address_loop.induct)
  case (1 address n addr_idx s)
  show ?case
  proof (cases "addr_idx < n")
    case False
    then have "latch_address_loop address n addr_idx s = s"
      by (subst latch_address_loop.simps) simp
    with False "1.prems" show ?thesis
      by (simp add: address_strobes_def)
  next
    case True
    have d: "drop addr_idx (take n address) = address ! addr_idx # drop (addr_idx + 1) (take n address)"
      using Cons_nth_drop_Suc [of addr_idx "take n address"] True "1.prems" by simp
    define s1 where "s1 = latch_address_body address addr_idx s"
    have s1_eq: "s1 = s\<lparr>iobus_value := address ! addr_idx,
       controlbus_value := controlbus_value s OR PIN_nWE,
       hw_trace := hw_trace s @ [CTRL_WRITE (controlbus_value s AND NOT PIN_nWE),
                                 IO_WRITE (address ! addr_idx),
                                 CTRL_WRITE (controlbus_value s OR PIN_nWE)]\<rparr>"
      by (simp add: s1_def latch_address_body_eq)
    have ih: "latch_address_loop address n (addr_idx + 1) s1 =
        s1\<lparr>iobus_value := (if addr_idx + 1 < n then address ! (n - 1) else iobus_value s1),
          controlbus_value := (if addr_idx + 1 < n then controlbus_value s1 OR PIN_nWE
                               else controlbus_value s1),
          hw_trace := hw_trace s1
             @ address_strobes (controlbus_value s1) (drop (addr_idx + 1) (take n address))\<rparr>"
      using "1.IH" [OF True] True "1.prems" unfolding s1_def by simp
    have last: "\<not> addr_idx + 1 < n \<Longrightarrow> addr_idx = n - 1" using True by simp
    have unfold: "latch_address_loop address n addr_idx s =
        latch_address_loop address n (addr_idx + 1) s1"
      using True unfolding s1_def by (subst latch_address_loop.simps) simp
    show ?thesis
      unfolding unfold ih d using True last
      by (simp add: s1_eq address_strobes_def or_and_not or.assoc)
  qed
qed

lemma latch_address_ok:
  assumes "controlbus_value s AND PIN_nCE = 0" and "controlbus_value s AND PIN_CLE = 0"
    and "controlbus_value s AND PIN_nRE \<noteq> 0" and "unat addr_length = length address"
  shows "latch_address address addr_length s =
    (0, s\<lparr>iobus_value := (if address = [] then iobus_value s else last address),
          controlbus_value := (if address = [] then controlbus_value s
                               else controlbus_value s OR PIN_nWE) AND NOT PIN_ALE,
          hw_trace := hw_trace s @ latchAddress_events (controlbus_value s) address\<rparr>)"
  using assms
  by (simp add: latch_address_def pin_nRE_low Let_def controlbus_pin_set_def
      controlbus_update_output_def xor_ff latch_address_loop_eq latchAddress_events_def
      address_strobes_def last_conv_nth or_and_not or_or_and_not)

lemma read_strobes_Suc:
  "read_strobes c (Suc m) =
     [CTRL_WRITE (c AND NOT PIN_nRE), IO_READ_PINS, CTRL_WRITE (c OR PIN_nRE)] @ read_strobes c m"
  by (simp add: read_strobes_def)

lemma read_strobes_or: "read_strobes (c OR PIN_nRE) m = read_strobes c m"
  by (simp add: read_strobes_def or_and_not or.assoc)

lemma latch_register_body_eq:
  "latch_register_body addr_idx (reg, s) =
     (reg[addr_idx := iobus_pins s (iobus_reads s)],
      s\<lparr>controlbus_value := controlbus_value s OR PIN_nRE,
        iobus_reads := iobus_reads s + 1,
        hw_trace := hw_trace s @ [CTRL_WRITE (controlbus_value s AND NOT PIN_nRE),
                                  IO_READ_PINS,
                                  CTRL_WRITE (controlbus_value s OR PIN_nRE)]\<rparr>)"
  by (simp add: latch_register_body_def Let_def controlbus_pin_set_def
      controlbus_update_output_def iobus_read_input_def xor_ff and_not_or_self)

lemma latch_register_loop_eq:
  "addr_idx \<le> n \<Longrightarrow> n \<le> length reg \<Longrightarrow>
   latch_register_loop n addr_idx (reg, s) =
     (take addr_idx reg @ samples s (n - addr_idx) @ drop n reg,
      s\<lparr>controlbus_value := (if addr_idx < n then controlbus_value s OR PIN_nRE else controlbus_value s),
        iobus_reads := iobus_reads s + (n - addr_idx),
        hw_trace := hw_trace s @ read_strobes (controlbus_value s) (n - addr_idx)\<rparr>)"
proof (induction "n - addr_idx" arbitrary: addr_idx reg s)
  case 0
  then have "latch_register_loop n addr_idx (reg, s) = (reg, s)"
    by (subst latch_register_loop.simps) simp
  with 0 show ?case
    by (simp add: samples_def read_strobes_def)
next
  case (Suc m)
  then have lt: "addr_idx < n" and m: "m = n - (addr_idx + 1)" and le: "addr_idx + 1 \<le> n"
    and nm: "n - addr_idx = Suc m"
    by simp_all
  define v where "v = iobus_pins s (iobus_reads s)"
  define reg1 where "reg1 = reg[addr_idx := v]"
  define s1 where "s1 = s\<lparr>controlbus_value := controlbus_value s OR PIN_nRE,
        iobus_reads := iobus_reads s + 1,
        hw_trace := hw_trace s @ [CTRL_WRITE (controlbus_value s AND NOT PIN_nRE),
                                  IO_READ_PINS,
                                  CTRL_WRITE (controlbus_value s OR PIN_nRE)]\<rparr>"
  have unfold: "latch_register_loop n addr_idx (reg, s) = latch_register_loop n (addr_idx + 1) (reg1, s1)"
    using lt unfolding reg1_def s1_def v_def
    by (subst latch_register_loop.simps) (simp add: latch_register_body_eq)
  have len1: "n \<le> length reg1" using Suc.prems by (simp add: reg1_def)
  have ih: "latch_register_loop n (addr_idx + 1) (reg1, s1) =
     (take (addr_idx + 1) reg1 @ samples s1 m @ drop n reg1,
      s1\<lparr>controlbus_value := (if addr_idx + 1 < n then controlbus_value s1 OR PIN_nRE else controlbus_value s1),
        iobus_reads := iobus_reads s1 + m,
        hw_trace := hw_trace s1 @ read_strobes (controlbus_value s1) m\<rparr>)"
    using Suc.hyps(1) [OF m le len1] m by simp
  have t: "take (addr_idx + 1) reg1 = take addr_idx reg @ [v]"
    using lt Suc.prems by (simp add: reg1_def take_Suc_conv_app_nth)
  have d: "drop n reg1 = drop n reg"
    using lt by (simp add: reg1_def)
  have sm: "samples s (Suc m) = v # samples s1 m"
    by (simp add: samples_def s1_def v_def upt_conv_Cons map_Suc_upt [symmetric] o_def del: upt_Suc)
  show ?case
    unfolding unfold ih t d nm sm read_strobes_Suc using lt
    by (simp add: s1_def read_strobes_or or.assoc)
qed

lemma latch_register_ok:
  assumes "controlbus_value s AND PIN_nCE = 0" and "controlbus_value s AND PIN_nWE \<noteq> 0"
    and "controlbus_value s AND PIN_ALE = 0" and "unat reg_length \<le> length reg"
  shows "latch_register reg reg_length s =
    (0, samples s (unat reg_length) @ drop (unat reg_length) reg,
        s\<lparr>controlbus_value := (if reg_length = 0 then controlbus_value s
                               else controlbus_value s OR PIN_nRE),
          iobus_direction := IOBUS_OUT,
          iobus_reads := iobus_reads s + unat reg_length,
          hw_trace := hw_trace s @ latchDataOut_events (controlbus_value s) (unat reg_length)\<rparr>)"
  using assms
  by (simp add: latch_register_def pin_nWE_low Let_def iobus_set_direction_def
      latch_register_loop_eq latchDataOut_events_def read_strobes_def samples_def unat_gt_0)

lemma busy_wait_step:
  "busy_wait s = (if rdy_at s 0 then Some (polled s 1) else busy_wait (polled s 1))"
  by (subst busy_wait.simps) (simp add: Let_def controlbus_read_input_def rdy_at_def polled_def)

lemma rdy_at_polled: "rdy_at (polled s n) k = rdy_at s (n + k)"
  by (simp add: rdy_at_def polled_def add.assoc)

lemma polled_polled: "polled (polled s n) m = polled s (n + m)"
  by (simp add: polled_def replicate_add add.assoc)

lemma busy_wait_first:
  "rdy_at s k \<Longrightarrow> \<forall>j<k. \<not> rdy_at s j \<Longrightarrow> busy_wait s = Some (polled s (k + 1))"
proof (induction k arbitrary: s)
  case 0
  then show ?case by (subst busy_wait_step) simp
next
  case (Suc k)
  have n0: "\<not> rdy_at s 0" using Suc.prems(2) by simp
  have r: "rdy_at (polled s 1) k" using Suc.prems(1) by (simp add: rdy_at_polled)
  have b: "\<forall>j<k. \<not> rdy_at (polled s 1) j" using Suc.prems(2) by (simp add: rdy_at_polled)
  have "busy_wait s = busy_wait (polled s 1)" using n0 by (subst busy_wait_step) simp
  also have "\<dots> = Some (polled (polled s 1) (k + 1))" by (rule Suc.IH [OF r b])
  finally show ?case by (simp add: polled_polled)
qed

lemma busy_wait_Some_rdy:
  assumes "busy_wait s = Some s'"
  shows "\<exists>k. rdy_at s k"
proof (rule busy_wait.raw_induct [where P = "\<lambda>s y. \<exists>k. rdy_at s k", OF _ assms])
  fix f :: "nand_state \<Rightarrow> nand_state option" and s sa
  assume ih: "\<And>x y. f x = Some y \<Longrightarrow> \<exists>k. rdy_at x k"
    and body: "(let r = controlbus_read_input s
                in if fst r AND PIN_RDY = 0 then f (snd r) else Some (snd r)) = Some sa"
  show "\<exists>k. rdy_at s k"
  proof (cases "rdy_at s 0")
    case True
    then show ?thesis by blast
  next
    case False
    then have "f (polled s 1) = Some sa"
      using body by (simp add: Let_def controlbus_read_input_def rdy_at_def polled_def)
    then obtain k where "rdy_at (polled s 1) k" using ih by blast
    then show ?thesis by (auto simp add: rdy_at_polled)
  qed
qed

lemma first_rdy: "rdy_at s k \<Longrightarrow> \<exists>m\<le>k. rdy_at s m \<and> (\<forall>j<m. \<not> rdy_at s j)"
proof -
  assume a: "rdy_at s k"
  let ?m = "LEAST m. rdy_at s m"
  have "rdy_at s ?m" using a by (rule LeastI)
  moreover have "?m \<le> k" using a by (rule Least_le)
  moreover have "\<forall>j<?m. \<not> rdy_at s j" using not_less_Least by blast
  ultimately show ?thesis by blast
qed

lemma pin_already_high: "(y::byte) AND q = q \<Longrightarrow> y OR q = y"
  by (auto simp add: bit_eq_iff bit_simps)

lemma pin_already_low: "(y::byte) AND p = 0 \<Longrightarrow> y AND NOT p = y"
  by (auto simp add: bit_eq_iff bit_simps)

lemma single_bit_high:
  "n < 8 \<Longrightarrow> ((c::byte) AND 2 ^ n \<noteq> 0) = (c AND 2 ^ n = 2 ^ n)"
proof -
  assume n: "n < 8"
  have "c AND 2 ^ n = (if bit c n then 2 ^ n else 0)"
    by (auto simp add: bit_eq_iff [where ?'a = byte] bit_simps)
  moreover have "(2::byte) ^ n \<noteq> 0" using n by simp
  ultimately show ?thesis by simp
qed

lemma pin_nRE_high: "((c::byte) AND PIN_nRE \<noteq> 0) = (c AND PIN_nRE = PIN_nRE)"
  using single_bit_high [of 4 c] by (simp add: PIN_nRE_def)

lemma pin_nWE_high: "((c::byte) AND PIN_nWE \<noteq> 0) = (c AND PIN_nWE = PIN_nWE)"
  using single_bit_high [of 3 c] by (simp add: PIN_nWE_def)

lemmas pin_algebra =
  or_and_self and_not_and_self or_and_other and_not_and_other pins_disjoint
  pin_already_high pin_already_low pin_nonzero

lemma samples_cong:
  "iobus_pins s' = iobus_pins s \<Longrightarrow> iobus_reads s' = iobus_reads s \<Longrightarrow> samples s' n = samples s n"
  by (simp add: samples_def)

lemma length_cycle_map: "length (get_address_cycle_map_x8 a) = 5"
  by (simp add: get_address_cycle_map_x8_def)

lemma cycle_map_nonempty: "get_address_cycle_map_x8 a \<noteq> []"
  by (simp add: get_address_cycle_map_x8_def)

lemma dump_memory_page_ok:
  assumes nCE: "controlbus_value s AND PIN_nCE = 0"
    and nRE: "controlbus_value s AND PIN_nRE \<noteq> 0"
    and rdy: "rdy_at s k" and busy: "\<forall>j<k. \<not> rdy_at s j"
    and len: "2112 \<le> length mem_large_block"
  shows "dump_memory_page mem_address mem_large_block s =
    Some (samples s 2112 @ drop 2112 mem_large_block,
      s\<lparr>iobus_value := 0x30,
        controlbus_value := ((controlbus_value s OR PIN_nWE) AND NOT PIN_CLE) AND NOT PIN_ALE,
        iobus_direction := IOBUS_OUT,
        iobus_reads := iobus_reads s + 2112,
        controlbus_reads := controlbus_reads s + (k + 1),
        hw_trace := hw_trace s
          @ latchCommand_events (controlbus_value s) 0x00
          @ latchAddress_events ((controlbus_value s OR PIN_nWE) AND NOT PIN_CLE)
              (get_address_cycle_map_x8 mem_address)
          @ latchCommand_events (((controlbus_value s OR PIN_nWE) AND NOT PIN_CLE) AND NOT PIN_ALE) 0x30
          @ replicate (k + 1) CTRL_READ_PINS
          @ latchDataOut_events (((controlbus_value s OR PIN_nWE) AND NOT PIN_CLE) AND NOT PIN_ALE) 2112\<rparr>)"
proof -
  let ?c = "controlbus_value s"
  let ?c1 = "(?c OR PIN_nWE) AND NOT PIN_CLE"
  let ?c2 = "?c1 AND NOT PIN_ALE"
  let ?cyc = "get_address_cycle_map_x8 mem_address"
  have nRE': "?c AND PIN_nRE = PIN_nRE" using nRE by (simp add: pin_nRE_high)
  define s1 where "s1 = s\<lparr>iobus_value := 0x00, controlbus_value := ?c1,
      hw_trace := hw_trace s @ latchCommand_events ?c 0x00\<rparr>"
  have 1: "latch_command (CMD_READ1 ! 0) s = (0, s1)"
    using nCE nRE by (simp add: latch_command_ok s1_def CMD_READ1_def)
  define s2 where "s2 = s1\<lparr>iobus_value := last ?cyc, controlbus_value := ?c2,
      hw_trace := hw_trace s1 @ latchAddress_events ?c1 ?cyc\<rparr>"
  have 2: "latch_address ?cyc 5 s1 = (0, s2)"
  proof -
    have "latch_address ?cyc 5 s1 =
      (0, s1\<lparr>iobus_value := (if ?cyc = [] then iobus_value s1 else last ?cyc),
          controlbus_value := (if ?cyc = [] then controlbus_value s1
                               else controlbus_value s1 OR PIN_nWE) AND NOT PIN_ALE,
          hw_trace := hw_trace s1 @ latchAddress_events (controlbus_value s1) ?cyc\<rparr>)"
      using nCE nRE' by (intro latch_address_ok) (simp_all add: s1_def pin_algebra length_cycle_map)
    then show ?thesis by (simp add: s2_def s1_def cycle_map_nonempty pin_algebra)
  qed
  define s3 where "s3 = s2\<lparr>iobus_value := 0x30,
      hw_trace := hw_trace s2 @ latchCommand_events ?c2 0x30\<rparr>"
  have 3: "latch_command (CMD_READ1 ! 1) s2 = (0, s3)"
  proof -
    have "latch_command (CMD_READ1 ! 1) s2 =
      (0, s2\<lparr>iobus_value := CMD_READ1 ! 1,
          controlbus_value := (controlbus_value s2 OR PIN_nWE) AND NOT PIN_CLE,
          hw_trace := hw_trace s2 @ latchCommand_events (controlbus_value s2) (CMD_READ1 ! 1)\<rparr>)"
      using nCE nRE' by (intro latch_command_ok) (simp_all add: s2_def s1_def pin_algebra)
    then show ?thesis by (simp add: s3_def s2_def s1_def CMD_READ1_def pin_algebra)
  qed
  define s4 where "s4 = polled s3 (k + 1)"
  have 4: "busy_wait s3 = Some s4"
    unfolding s4_def using rdy busy
    by (intro busy_wait_first) (simp_all add: rdy_at_def s3_def s2_def s1_def)
  have c4: "controlbus_value s4 = ?c2"
    by (simp add: s4_def polled_def s3_def s2_def)
  have 5: "latch_register mem_large_block 2112 s4 =
    (0, samples s 2112 @ drop 2112 mem_large_block,
       s4\<lparr>iobus_direction := IOBUS_OUT,
          iobus_reads := iobus_reads s + 2112,
          hw_trace := hw_trace s4 @ latchDataOut_events ?c2 2112\<rparr>)"
  proof -
    have sm: "samples s4 2112 = samples s 2112"
      by (rule samples_cong) (simp_all add: s4_def polled_def s3_def s2_def s1_def)
    have rd: "iobus_reads s4 = iobus_reads s"
      by (simp add: s4_def polled_def s3_def s2_def s1_def)
    have "latch_register mem_large_block 2112 s4 =
      (0, samples s4 (unat (2112 :: 32 word)) @ drop (unat (2112 :: 32 word)) mem_large_block,
        s4\<lparr>controlbus_value := (if (2112 :: 32 word) = 0 then controlbus_value s4
                               else controlbus_value s4 OR PIN_nRE),
          iobus_direction := IOBUS_OUT,
          iobus_reads := iobus_reads s4 + unat (2112 :: 32 word),
          hw_trace := hw_trace s4 @ latchDataOut_events (controlbus_value s4) (unat (2112 :: 32 word))\<rparr>)"
      using nCE nRE' len by (intro latch_register_ok) (simp_all add: c4 pin_algebra)
    moreover have "s4\<lparr>controlbus_value := ?c2\<rparr> = s4"
      using c4 by simp
    ultimately show ?thesis
      using nRE' by (simp add: sm rd c4 pin_algebra)
  qed
  show ?thesis
    unfolding dump_memory_page_def Let_def 1 2 3 4 5 snd_conv fst_conv option.case
    by (simp add: s4_def polled_def s3_def s2_def s1_def)
qed

lemma row_cycles:
  "[get_address_cycle_map_x8 a ! 2, get_address_cycle_map_x8 a ! 3, get_address_cycle_map_x8 a ! 4]
   = drop 2 (get_address_cycle_map_x8 a)"
  by (simp add: get_address_cycle_map_x8_def)

lemma row_cycles_shape: "length (drop 2 (get_address_cycle_map_x8 a)) = 3"
  "drop 2 (get_address_cycle_map_x8 a) \<noteq> []"
  by (simp_all add: get_address_cycle_map_x8_def)

lemma erase_block_ok:
  assumes nCE: "controlbus_value s AND PIN_nCE = 0"
    and nRE: "controlbus_value s AND PIN_nRE \<noteq> 0"
    and rdy: "rdy_at s k" and busy: "\<forall>j<k. \<not> rdy_at s j"
  shows "erase_block nBlockId status_register s =
    Some (if iobus_pins s (iobus_reads s) AND STATUSREG_IO0 \<noteq> 0 then 1 else 0,
      iobus_pins s (iobus_reads s),
      s\<lparr>iobus_value := 0x70,
        controlbus_value :=
          ((((controlbus_value s OR PIN_nWP) OR PIN_nWE) AND NOT PIN_CLE) AND NOT PIN_ALE) AND NOT PIN_nWP,
        iobus_direction := IOBUS_OUT,
        iobus_reads := iobus_reads s + 1,
        controlbus_reads := controlbus_reads s + (k + 1),
        hw_trace := hw_trace s
          @ latchCommand_events (controlbus_value s OR PIN_nWP) 0x60
          @ latchAddress_events (((controlbus_value s OR PIN_nWP) OR PIN_nWE) AND NOT PIN_CLE)
              (drop 2 (get_address_cycle_map_x8 (2048 * 64 * nBlockId)))
          @ latchCommand_events
              ((((controlbus_value s OR PIN_nWP) OR PIN_nWE) AND NOT PIN_CLE) AND NOT PIN_ALE) 0xD0
          @ replicate (k + 1) CTRL_READ_PINS
          @ latchCommand_events
              ((((controlbus_value s OR PIN_nWP) OR PIN_nWE) AND NOT PIN_CLE) AND NOT PIN_ALE) 0x70
          @ latchDataOut_events
              ((((controlbus_value s OR PIN_nWP) OR PIN_nWE) AND NOT PIN_CLE) AND NOT PIN_ALE) 1\<rparr>)"
proof -
  let ?c = "controlbus_value s"
  let ?cw = "?c OR PIN_nWP"
  let ?c1 = "(?cw OR PIN_nWE) AND NOT PIN_CLE"
  let ?c2 = "?c1 AND NOT PIN_ALE"
  define row where "row = drop 2 (get_address_cycle_map_x8 (2048 * 64 * nBlockId))"
  have row: "length row = 3" "row \<noteq> []"
    unfolding row_def by (rule row_cycles_shape)+
  let ?st = "iobus_pins s (iobus_reads s)"
  have nRE': "?c AND PIN_nRE = PIN_nRE" using nRE by (simp add: pin_nRE_high)
  define s0 where "s0 = s\<lparr>controlbus_value := ?cw\<rparr>"
  have 0: "controlbus_pin_set PIN_nWP ON s = s0"
    by (simp add: controlbus_pin_set_def s0_def)
  define s1 where "s1 = s0\<lparr>iobus_value := 0x60, controlbus_value := ?c1,
      hw_trace := hw_trace s @ latchCommand_events ?cw 0x60\<rparr>"
  have 1: "latch_command (CMD_BLOCKERASE ! 0) s0 = (0, s1)"
  proof -
    have "latch_command (CMD_BLOCKERASE ! 0) s0 =
      (0, s0\<lparr>iobus_value := CMD_BLOCKERASE ! 0,
          controlbus_value := (controlbus_value s0 OR PIN_nWE) AND NOT PIN_CLE,
          hw_trace := hw_trace s0 @ latchCommand_events (controlbus_value s0) (CMD_BLOCKERASE ! 0)\<rparr>)"
      using nCE nRE' by (intro latch_command_ok) (simp_all add: s0_def pin_algebra)
    then show ?thesis by (simp add: s1_def s0_def CMD_BLOCKERASE_def)
  qed
  define s2 where "s2 = s1\<lparr>iobus_value := last row, controlbus_value := ?c2,
      hw_trace := hw_trace s1 @ latchAddress_events ?c1 row\<rparr>"
  have 2: "latch_address row 3 s1 = (0, s2)"
  proof -
    have "latch_address row 3 s1 =
      (0, s1\<lparr>iobus_value := (if row = [] then iobus_value s1 else last row),
          controlbus_value := (if row = [] then controlbus_value s1
                               else controlbus_value s1 OR PIN_nWE) AND NOT PIN_ALE,
          hw_trace := hw_trace s1 @ latchAddress_events (controlbus_value s1) row\<rparr>)"
      using nCE nRE'
      by (intro latch_address_ok) (simp_all add: s1_def s0_def pin_algebra row)
    then show ?thesis by (simp add: s2_def s1_def s0_def row pin_algebra)
  qed
  define s3 where "s3 = s2\<lparr>iobus_value := 0xD0,
      hw_trace := hw_trace s2 @ latchCommand_events ?c2 0xD0\<rparr>"
  have 3: "latch_command (CMD_BLOCKERASE ! 1) s2 = (0, s3)"
  proof -
    have "latch_command (CMD_BLOCKERASE ! 1) s2 =
      (0, s2\<lparr>iobus_value := CMD_BLOCKERASE ! 1,
          controlbus_value := (controlbus_value s2 OR PIN_nWE) AND NOT PIN_CLE,
          hw_trace := hw_trace s2 @ latchCommand_events (controlbus_value s2) (CMD_BLOCKERASE ! 1)\<rparr>)"
      using nCE nRE' by (intro latch_command_ok) (simp_all add: s2_def s1_def s0_def pin_algebra)
    then show ?thesis by (simp add: s3_def s2_def s1_def s0_def CMD_BLOCKERASE_def pin_algebra)
  qed
  define s4 where "s4 = polled s3 (k + 1)"
  have 4: "busy_wait s3 = Some s4"
    unfolding s4_def using rdy busy
    by (intro busy_wait_first) (simp_all add: rdy_at_def s3_def s2_def s1_def s0_def)
  have c4: "controlbus_value s4 = ?c2"
    by (simp add: s4_def polled_def s3_def s2_def)
  define s5 where "s5 = s4\<lparr>iobus_value := 0x70,
      hw_trace := hw_trace s4 @ latchCommand_events ?c2 0x70\<rparr>"
  have 5: "latch_command CMD_READSTATUS s4 = (0, s5)"
  proof -
    have "latch_command CMD_READSTATUS s4 =
      (0, s4\<lparr>iobus_value := CMD_READSTATUS,
          controlbus_value := (controlbus_value s4 OR PIN_nWE) AND NOT PIN_CLE,
          hw_trace := hw_trace s4 @ latchCommand_events (controlbus_value s4) CMD_READSTATUS\<rparr>)"
      using nCE nRE' by (intro latch_command_ok) (simp_all add: c4 pin_algebra)
    moreover have "s4\<lparr>controlbus_value := ?c2\<rparr> = s4"
      using c4 by simp
    ultimately show ?thesis by (simp add: s5_def c4 CMD_READSTATUS_def pin_algebra)
  qed
  have c5: "controlbus_value s5 = ?c2"
    by (simp add: s5_def c4)
  define s6 where "s6 = s5\<lparr>iobus_direction := IOBUS_OUT,
          iobus_reads := iobus_reads s + 1,
          hw_trace := hw_trace s5 @ latchDataOut_events ?c2 1\<rparr>"
  have 6: "latch_register [status_register] 1 s5 = (0, [?st], s6)"
  proof -
    have sm: "samples s5 (Suc 0) = [?st]"
      by (simp add: samples_def s5_def s4_def polled_def s3_def s2_def s1_def s0_def)
    have rd: "iobus_reads s5 = iobus_reads s"
      by (simp add: s5_def s4_def polled_def s3_def s2_def s1_def s0_def)
    have "latch_register [status_register] 1 s5 =
      (0, samples s5 (unat (1 :: 32 word)) @ drop (unat (1 :: 32 word)) [status_register],
        s5\<lparr>controlbus_value := (if (1 :: 32 word) = 0 then controlbus_value s5
                               else controlbus_value s5 OR PIN_nRE),
          iobus_direction := IOBUS_OUT,
          iobus_reads := iobus_reads s5 + unat (1 :: 32 word),
          hw_trace := hw_trace s5 @ latchDataOut_events (controlbus_value s5) (unat (1 :: 32 word))\<rparr>)"
      using nCE nRE' by (intro latch_register_ok) (simp_all add: c5 pin_algebra)
    moreover have "s5\<lparr>controlbus_value := ?c2\<rparr> = s5"
      using c5 by simp
    ultimately show ?thesis
      using nRE' by (simp add: s6_def sm rd c5 pin_algebra)
  qed
  have 7: "controlbus_pin_set PIN_nWP OFF s6 = s6\<lparr>controlbus_value := ?c2 AND NOT PIN_nWP\<rparr>"
    by (simp add: controlbus_pin_set_def xor_ff s6_def c5)
  show ?thesis
    unfolding erase_block_def Let_def row_cycles row_def [symmetric] 0 1 2 3 4 5 6 7
      snd_conv fst_conv option.case nth_Cons_0
    by (simp add: s6_def s5_def s4_def polled_def s3_def s2_def s1_def s0_def)
qed

lemma main_setup_eq:
  "main_setup s =
     s\<lparr>iobus_value := 0x00, controlbus_value := PIN_nRE, iobus_direction := IOBUS_OUT,
       iobus_reads := iobus_reads s + 1, controlbus_reads := controlbus_reads s + 1,
       hw_trace := hw_trace s @ [CTRL_WRITE 0x00, IO_SET_DIRECTION IOBUS_OUT, IO_WRITE 0x00,
         IO_SET_DIRECTION IOBUS_IN, IO_READ_PINS, CTRL_READ_PINS, IO_SET_DIRECTION IOBUS_OUT,
         CTRL_WRITE PIN_nRE]\<rparr>"
  by (simp add: main_setup_def Let_def controlbus_reset_value_def controlbus_update_output_def
      iobus_set_direction_def iobus_reset_value_def iobus_update_output_def iobus_read_input_def
      controlbus_read_input_def controlbus_pin_set_def pin_defs)

lemma main_read_ID_ok:
  assumes nCE: "controlbus_value s AND PIN_nCE = 0"
    and nRE: "controlbus_value s AND PIN_nRE \<noteq> 0"
    and len: "5 \<le> length ID_register"
  shows "main_read_ID ID_register s =
    (check_ID_register (samples s 5 @ drop 5 ID_register), samples s 5 @ drop 5 ID_register,
      s\<lparr>iobus_value := 0x00,
        controlbus_value := ((controlbus_value s OR PIN_nWE) AND NOT PIN_CLE) AND NOT PIN_ALE,
        iobus_direction := IOBUS_OUT,
        iobus_reads := iobus_reads s + 5,
        hw_trace := hw_trace s
          @ latchCommand_events (controlbus_value s) 0x90
          @ latchAddress_events ((controlbus_value s OR PIN_nWE) AND NOT PIN_CLE) [0x00]
          @ latchDataOut_events (((controlbus_value s OR PIN_nWE) AND NOT PIN_CLE) AND NOT PIN_ALE) 5\<rparr>)"
proof -
  let ?c = "controlbus_value s"
  let ?c1 = "(?c OR PIN_nWE) AND NOT PIN_CLE"
  let ?c2 = "?c1 AND NOT PIN_ALE"
  have nRE': "?c AND PIN_nRE = PIN_nRE" using nRE by (simp add: pin_nRE_high)
  define s1 where "s1 = s\<lparr>iobus_value := 0x90, controlbus_value := ?c1,
      hw_trace := hw_trace s @ latchCommand_events ?c 0x90\<rparr>"
  have 1: "latch_command CMD_READID s = (0, s1)"
    using nCE nRE by (simp add: latch_command_ok s1_def CMD_READID_def)
  define s2 where "s2 = s1\<lparr>iobus_value := 0x00, controlbus_value := ?c2,
      hw_trace := hw_trace s1 @ latchAddress_events ?c1 [0x00]\<rparr>"
  have 2: "latch_address [0x00] 1 s1 = (0, s2)"
  proof -
    have "latch_address [0x00] 1 s1 =
      (0, s1\<lparr>iobus_value := (if [0x00 :: byte] = [] then iobus_value s1 else last [0x00]),
          controlbus_value := (if [0x00 :: byte] = [] then controlbus_value s1
                               else controlbus_value s1 OR PIN_nWE) AND NOT PIN_ALE,
          hw_trace := hw_trace s1 @ latchAddress_events (controlbus_value s1) [0x00]\<rparr>)"
      using nCE nRE' by (intro latch_address_ok) (simp_all add: s1_def pin_algebra)
    then show ?thesis by (simp add: s2_def s1_def pin_algebra)
  qed
  have c2: "controlbus_value s2 = ?c2"
    by (simp add: s2_def)
  define s3 where "s3 = s2\<lparr>iobus_direction := IOBUS_OUT,
          iobus_reads := iobus_reads s + 5,
          hw_trace := hw_trace s2 @ latchDataOut_events ?c2 5\<rparr>"
  have 3: "latch_register ID_register 5 s2 = (0, samples s 5 @ drop 5 ID_register, s3)"
  proof -
    have sm: "samples s2 5 = samples s 5"
      by (rule samples_cong) (simp_all add: s2_def s1_def)
    have rd: "iobus_reads s2 = iobus_reads s"
      by (simp add: s2_def s1_def)
    have "latch_register ID_register 5 s2 =
      (0, samples s2 (unat (5 :: 32 word)) @ drop (unat (5 :: 32 word)) ID_register,
        s2\<lparr>controlbus_value := (if (5 :: 32 word) = 0 then controlbus_value s2
                               else controlbus_value s2 OR PIN_nRE),
          iobus_direction := IOBUS_OUT,
          iobus_reads := iobus_reads s2 + unat (5 :: 32 word),
          hw_trace := hw_trace s2 @ latchDataOut_events (controlbus_value s2) (unat (5 :: 32 word))\<rparr>)"
      using nCE nRE' len by (intro latch_register_ok) (simp_all add: c2 pin_algebra)
    moreover have "s2\<lparr>controlbus_value := ?c2\<rparr> = s2"
      using c2 by simp
    ultimately show ?thesis
      using nRE' by (simp add: s3_def sm rd c2 pin_algebra)
  qed
  show ?thesis
    unfolding main_read_ID_def Let_def 1 2 3 snd_conv fst_conv
    by (simp add: s3_def s2_def s1_def)
qed

lemma strncmp_exp:
  "strncmp [0xAD, 0xDC, 0x10, 0x95, 0x54] [a, b, c, d, e] 5 = 0
   \<longleftrightarrow> a = 0xAD \<and> b = 0xDC \<and> c = 0x10 \<and> d = 0x95 \<and> e = 0x54"
proof -
  have n5: "(5::nat) = Suc (Suc (Suc (Suc (Suc 0))))" by simp
  have ne: "x \<noteq> y \<Longrightarrow> uint x - uint y \<noteq> 0" for x y :: byte
    by (simp add: word_uint_eq_iff)
  show ?thesis
    unfolding n5 by (auto simp add: ne word_uint_eq_iff)
qed

lemma check_ID_register_iff:
  assumes "length ID_register = 5"
  shows "(check_ID_register ID_register = PASS) = (ID_register = ID_register_exp)"
proof -
  from assms obtain a b c d e where r: "ID_register = [a, b, c, d, e]"
    by (auto simp add: length_Suc_conv eval_nat_numeral)
  show ?thesis
    unfolding r check_ID_register_def ID_register_exp_def by (simp add: strncmp_exp)
qed

lemma length_samples: "length (samples s n) = n"
  by (simp add: samples_def)

lemma samples_5:
  "samples s 5 = [iobus_pins s (iobus_reads s), iobus_pins s (iobus_reads s + 1),
     iobus_pins s (iobus_reads s + 2), iobus_pins s (iobus_reads s + 3),
     iobus_pins s (iobus_reads s + 4)]"
  by (simp add: samples_def eval_nat_numeral)

lemma page_ready_fields:
  "controlbus_value page_ready = 0x18"
  "controlbus_reads page_ready = 1"
  "iobus_reads page_ready = 6"
  "controlbus_pins page_ready = (\<lambda>k. if k < 3 then 0x18 else 0x58)"
proof -
  let ?m = "main_setup (session_start (\<lambda>k. of_nat k) (\<lambda>k. if k < 3 then 0x18 else 0x58))"
  have pre: "controlbus_value ?m AND PIN_nCE = 0" "controlbus_value ?m AND PIN_nRE \<noteq> 0"
    "5 \<le> length [0, 0, 0, 0, 0 :: byte]"
    by (simp_all add: main_setup_eq pin_defs)
  show "controlbus_value page_ready = 0x18"
    "controlbus_reads page_ready = 1"
    "iobus_reads page_ready = 6"
    "controlbus_pins page_ready = (\<lambda>k. if k < 3 then 0x18 else 0x58)"
    unfolding page_ready_def main_read_ID_ok [OF pre]
    by (simp_all add: main_setup_eq session_start_def pin_defs)
qed

section \<open>The claims\<close>

text \<open>
  Claim C1. For every 32-bit linear address \<open>a\<close>, \<^verbatim>\<open>get_address_cycle_map_x8\<close> yields exactly the
  five cycles \<open>a & 0xFF\<close>, \<open>(a >> 8) & 0x0F\<close>, \<open>(a >> 12) & 0xFF\<close>, \<open>(a >> 20) & 0xFF\<close>,
  \<open>(a >> 28) & 0x03\<close>; address 0 maps to five zero bytes and address \<open>0x10000000\<close> to
  \<open>[0, 0, 0, 0, 1]\<close>. The function takes the address alone and returns the cycles alone:
  it reads and writes no state.
\<close>

theorem get_address_cycle_map_x8_cycles:
  "get_address_cycle_map_x8 a =
     [ucast (a AND 0xFF), ucast (drop_bit 8 a AND 0x0F), ucast (drop_bit 12 a AND 0xFF),
      ucast (drop_bit 20 a AND 0xFF), ucast (drop_bit 28 a AND 0x03)]
   \<and> get_address_cycle_map_x8 0x00000000 = [0x00, 0x00, 0x00, 0x00, 0x00]
   \<and> get_address_cycle_map_x8 0x10000000 = [0x00, 0x00, 0x00, 0x00, 0x01]"
  by (simp add: get_address_cycle_map_x8_def drop_bit_and)

text \<open>
  Claim C10. \<^verbatim>\<open>controlbus_pin_set\<close> and \<^verbatim>\<open>iobus_pin_set\<close> set every bit of the mask when the
  value is ON and clear every bit of it when the value is OFF, keep every bit outside the mask,
  change no other part of the state, add nothing to the hardware trace, and give the same state
  when applied twice as when applied once.
\<close>

theorem pin_set_frame:
  "controlbus_value (controlbus_pin_set p ON s) AND p = p
   \<and> controlbus_value (controlbus_pin_set p OFF s) AND p = 0
   \<and> controlbus_value (controlbus_pin_set p v s) AND NOT p = controlbus_value s AND NOT p
   \<and> controlbus_pin_set p v s = s\<lparr>controlbus_value := controlbus_value (controlbus_pin_set p v s)\<rparr>
   \<and> hw_trace (controlbus_pin_set p v s) = hw_trace s
   \<and> controlbus_pin_set p v (controlbus_pin_set p v s) = controlbus_pin_set p v s
   \<and> iobus_value (iobus_pin_set p ON s) AND p = p
   \<and> iobus_value (iobus_pin_set p OFF s) AND p = 0
   \<and> iobus_value (iobus_pin_set p v s) AND NOT p = iobus_value s AND NOT p
   \<and> iobus_pin_set p v s = s\<lparr>iobus_value := iobus_value (iobus_pin_set p v s)\<rparr>
   \<and> hw_trace (iobus_pin_set p v s) = hw_trace s
   \<and> iobus_pin_set p v (iobus_pin_set p v s) = iobus_pin_set p v s"
  by (cases v)
     (simp_all add: controlbus_pin_set_def iobus_pin_set_def xor_ff or_and_self or_and_not
        and_not_and_self and.assoc or.assoc)

text \<open>
  Claim C4. In every state whose held control byte has nCE high or nRE low, \<^verbatim>\<open>latch_command\<close>
  returns \<^verbatim>\<open>EXIT_FAILURE\<close>, which is not zero, and leaves the whole state as it was: the held
  data-bus value, the data-bus direction, the control byte, and the hardware trace, to which
  nothing is added.
\<close>

theorem latch_command_precondition_violation:
  assumes "controlbus_value s AND PIN_nCE \<noteq> 0 \<or> controlbus_value s AND PIN_nRE = 0"
  shows "latch_command command s = (EXIT_FAILURE, s) \<and> EXIT_FAILURE \<noteq> 0"
  using assms by (auto simp add: latch_command_def pin_nRE_low EXIT_FAILURE_def)

text \<open>The theorem at concrete inputs that meet its hypotheses.\<close>

theorem latch_command_precondition_violation_witness:
  "latch_command 0x90 ((session_start (\<lambda>k. 0) (\<lambda>k. 0))\<lparr>controlbus_value := 0x14\<rparr>)
     = (1, (session_start (\<lambda>k. 0) (\<lambda>k. 0))\<lparr>controlbus_value := 0x14\<rparr>)
   \<and> latch_command 0x90 ((session_start (\<lambda>k. 0) (\<lambda>k. 0))\<lparr>controlbus_value := 0x08\<rparr>)
     = (1, (session_start (\<lambda>k. 0) (\<lambda>k. 0))\<lparr>controlbus_value := 0x08\<rparr>)"
  using latch_command_precondition_violation
          [of "(session_start (\<lambda>k. 0) (\<lambda>k. 0))\<lparr>controlbus_value := 0x14\<rparr>" "0x90"]
        latch_command_precondition_violation
          [of "(session_start (\<lambda>k. 0) (\<lambda>k. 0))\<lparr>controlbus_value := 0x08\<rparr>" "0x90"]
  by (simp add: session_start_def pin_defs EXIT_FAILURE_def)

text \<open>
  Claim C5. The busy-wait loop reads the control channel until a sample has RDY set. If the first
  such sample is the \<open>k\<close>-th coming one, the loop returns after exactly \<open>k + 1\<close> reads, having
  changed nothing else; if some sample has RDY set, the loop returns; if none ever has, it
  never returns (\<open>None\<close>). There is no other outcome.
\<close>

theorem busy_wait_returns_iff_ready:
  "(\<forall>k. rdy_at s k \<and> (\<forall>j<k. \<not> rdy_at s j) \<longrightarrow> busy_wait s = Some (polled s (k + 1)))
   \<and> ((\<exists>k. rdy_at s k) \<longrightarrow> (\<exists>s'. busy_wait s = Some s'))
   \<and> ((\<forall>k. \<not> rdy_at s k) \<longrightarrow> busy_wait s = None)"
proof (intro conjI allI impI)
  fix k assume "rdy_at s k \<and> (\<forall>j<k. \<not> rdy_at s j)"
  then show "busy_wait s = Some (polled s (k + 1))" using busy_wait_first by blast
next
  assume "\<exists>k. rdy_at s k"
  then obtain m where "rdy_at s m" "\<forall>j<m. \<not> rdy_at s j" using first_rdy by blast
  then show "\<exists>s'. busy_wait s = Some s'" using busy_wait_first by blast
next
  assume n: "\<forall>k. \<not> rdy_at s k"
  show "busy_wait s = None"
  proof (cases "busy_wait s")
    case None then show ?thesis .
  next
    case (Some s')
    then show ?thesis using busy_wait_Some_rdy n by blast
  qed
qed

text \<open>The theorem at concrete inputs that meet its hypotheses.\<close>

theorem busy_wait_returns_iff_ready_witness:
  "busy_wait (session_start (\<lambda>k. 0) (\<lambda>k. if k < 2 then 0x18 else 0x58))
     = Some ((session_start (\<lambda>k. 0) (\<lambda>k. if k < 2 then 0x18 else 0x58))
               \<lparr>controlbus_reads := 3,
                 hw_trace := [CTRL_READ_PINS, CTRL_READ_PINS, CTRL_READ_PINS]\<rparr>)
   \<and> busy_wait (session_start (\<lambda>k. 0) (\<lambda>k. 0x18)) = None"
proof -
  let ?a = "session_start (\<lambda>k. 0) (\<lambda>k. if k < 2 then 0x18 else 0x58)"
  let ?b = "session_start (\<lambda>k. 0) (\<lambda>k. 0x18)"
  have r: "rdy_at ?a 2 \<and> (\<forall>j<2. \<not> rdy_at ?a j)"
    by (simp add: rdy_at_def session_start_def PIN_RDY_def)
  have n: "\<forall>k. \<not> rdy_at ?b k"
    by (simp add: rdy_at_def session_start_def PIN_RDY_def)
  from busy_wait_returns_iff_ready [of ?a] r
  have "busy_wait ?a = Some (polled ?a (2 + 1))" by blast
  moreover from busy_wait_returns_iff_ready [of ?b] n
  have "busy_wait ?b = None" by blast
  ultimately show ?thesis
    by (simp add: polled_def session_start_def eval_nat_numeral)
qed

text \<open>
  Claim C6. With nCE low, nWE high and ALE low, and an array of \<open>reg_length\<close> bytes,
  \<^verbatim>\<open>latch_register\<close> returns 0 and the next \<open>reg_length\<close> samples of the I/O channel; the
  hardware sees the switch to input, then one nRE-low flush, one read and one nRE-high flush
  per byte, then the switch to output; and the direction is output when it returns, for every
  length, zero included.
\<close>

theorem latch_register_restores_output:
  assumes "controlbus_value s AND PIN_nCE = 0" and "controlbus_value s AND PIN_nWE \<noteq> 0"
    and "controlbus_value s AND PIN_ALE = 0" and "length reg = unat reg_length"
  shows "latch_register reg reg_length s =
    (0, samples s (unat reg_length),
        s\<lparr>controlbus_value := (if reg_length = 0 then controlbus_value s
                               else controlbus_value s OR PIN_nRE),
          iobus_direction := IOBUS_OUT,
          iobus_reads := iobus_reads s + unat reg_length,
          hw_trace := hw_trace s @ latchDataOut_events (controlbus_value s) (unat reg_length)\<rparr>)
    \<and> iobus_direction (snd (snd (latch_register reg reg_length s))) = IOBUS_OUT"
proof -
  have "latch_register reg reg_length s =
    (0, samples s (unat reg_length) @ drop (unat reg_length) reg,
        s\<lparr>controlbus_value := (if reg_length = 0 then controlbus_value s
                               else controlbus_value s OR PIN_nRE),
          iobus_direction := IOBUS_OUT,
          iobus_reads := iobus_reads s + unat reg_length,
          hw_trace := hw_trace s @ latchDataOut_events (controlbus_value s) (unat reg_length)\<rparr>)"
    using assms by (intro latch_register_ok) simp_all
  with assms(4) show ?thesis by simp
qed

text \<open>The theorem at concrete inputs that meet its hypotheses.\<close>

theorem latch_register_restores_output_witness:
  "latch_register [] 0 ((session_start (\<lambda>k. 0xA5) (\<lambda>k. 0))\<lparr>controlbus_value := 0x18, iobus_direction := IOBUS_IN\<rparr>)
     = (0, [], (session_start (\<lambda>k. 0xA5) (\<lambda>k. 0))\<lparr>controlbus_value := 0x18,
              hw_trace := [IO_SET_DIRECTION IOBUS_IN, IO_SET_DIRECTION IOBUS_OUT]\<rparr>)
   \<and> latch_register [0, 0] 2 ((session_start (\<lambda>k. 0xA5) (\<lambda>k. 0))\<lparr>controlbus_value := 0x18\<rparr>)
     = (0, [0xA5, 0xA5], (session_start (\<lambda>k. 0xA5) (\<lambda>k. 0))\<lparr>controlbus_value := 0x18,
              iobus_reads := 2,
              hw_trace := [IO_SET_DIRECTION IOBUS_IN,
                           CTRL_WRITE 0x08, IO_READ_PINS, CTRL_WRITE 0x18,
                           CTRL_WRITE 0x08, IO_READ_PINS, CTRL_WRITE 0x18,
                           IO_SET_DIRECTION IOBUS_OUT]\<rparr>)"
proof -
  let ?a = "(session_start (\<lambda>k. 0xA5) (\<lambda>k. 0))\<lparr>controlbus_value := 0x18, iobus_direction := IOBUS_IN\<rparr>"
  let ?b = "(session_start (\<lambda>k. 0xA5) (\<lambda>k. 0))\<lparr>controlbus_value := 0x18\<rparr>"
  have a: "controlbus_value ?a AND PIN_nCE = 0" "controlbus_value ?a AND PIN_nWE \<noteq> 0"
    "controlbus_value ?a AND PIN_ALE = 0" "length ([] :: byte list) = unat (0 :: 32 word)"
    by (simp_all add: session_start_def pin_defs)
  have b: "controlbus_value ?b AND PIN_nCE = 0" "controlbus_value ?b AND PIN_nWE \<noteq> 0"
    "controlbus_value ?b AND PIN_ALE = 0" "length [0, 0 :: byte] = unat (2 :: 32 word)"
    by (simp_all add: session_start_def pin_defs)
  have u: "unat (2 :: 32 word) = Suc (Suc 0)" by simp
  show ?thesis
    using latch_register_restores_output [OF a] latch_register_restores_output [OF b]
    unfolding u
    by (simp add: session_start_def pin_defs samples_def latchDataOut_events_def)
qed

text \<open>
  Claim C7. For every five bytes, \<^verbatim>\<open>check_ID_register\<close> reports PASS exactly when they equal
  \<open>AD DC 10 95 54\<close> byte for byte, and FAIL exactly when they differ, a zero byte included
  (\<^verbatim>\<open>strncmp\<close> stops at a NUL only where both arrays agree, and the signature has none). Run
  from a state with nCE low and nRE high, as \<^verbatim>\<open>main\<close> sets up, the ID read fills the array
  with the next five samples of the I/O channel and reports on those. The outcome is always one
  of the two reports.
\<close>

theorem check_ID_register_match_iff:
  "(length ID_register = 5 \<longrightarrow>
      (check_ID_register ID_register = PASS) = (ID_register = [0xAD, 0xDC, 0x10, 0x95, 0x54])
      \<and> (check_ID_register ID_register = FAIL) = (ID_register \<noteq> [0xAD, 0xDC, 0x10, 0x95, 0x54]))
   \<and> (controlbus_value s AND PIN_nCE = 0 \<and> controlbus_value s AND PIN_nRE \<noteq> 0
        \<and> length ID_register = 5 \<longrightarrow>
      fst (main_read_ID ID_register s)
        = (if samples s 5 = [0xAD, 0xDC, 0x10, 0x95, 0x54] then PASS else FAIL)
      \<and> fst (snd (main_read_ID ID_register s)) = samples s 5)"
proof (intro conjI impI)
  assume len: "length ID_register = 5"
  show p: "(check_ID_register ID_register = PASS) = (ID_register = [0xAD, 0xDC, 0x10, 0x95, 0x54])"
    using check_ID_register_iff [OF len] by (simp add: ID_register_exp_def)
  show "(check_ID_register ID_register = FAIL) = (ID_register \<noteq> [0xAD, 0xDC, 0x10, 0x95, 0x54])"
    using p by (cases "check_ID_register ID_register") simp_all
next
  assume a: "controlbus_value s AND PIN_nCE = 0 \<and> controlbus_value s AND PIN_nRE \<noteq> 0
        \<and> length ID_register = 5"
  then have r: "main_read_ID ID_register s =
    (check_ID_register (samples s 5 @ drop 5 ID_register), samples s 5 @ drop 5 ID_register,
      s\<lparr>iobus_value := 0x00,
        controlbus_value := ((controlbus_value s OR PIN_nWE) AND NOT PIN_CLE) AND NOT PIN_ALE,
        iobus_direction := IOBUS_OUT,
        iobus_reads := iobus_reads s + 5,
        hw_trace := hw_trace s
          @ latchCommand_events (controlbus_value s) 0x90
          @ latchAddress_events ((controlbus_value s OR PIN_nWE) AND NOT PIN_CLE) [0x00]
          @ latchDataOut_events (((controlbus_value s OR PIN_nWE) AND NOT PIN_CLE) AND NOT PIN_ALE) 5\<rparr>)"
    by (intro main_read_ID_ok) simp_all
  have d: "drop 5 ID_register = []" using a by simp
  have c: "(check_ID_register (samples s 5) = PASS) = (samples s 5 = ID_register_exp)"
    by (rule check_ID_register_iff) (rule length_samples)
  show "fst (snd (main_read_ID ID_register s)) = samples s 5"
    unfolding r d by simp
  show "fst (main_read_ID ID_register s)
        = (if samples s 5 = [0xAD, 0xDC, 0x10, 0x95, 0x54] then PASS else FAIL)"
    unfolding r d using c
    by (cases "check_ID_register (samples s 5)") (simp_all add: ID_register_exp_def)
qed

text \<open>The theorem at concrete inputs that meet its hypotheses.\<close>

theorem check_ID_register_match_iff_witness:
  "check_ID_register [0xAD, 0xDC, 0x10, 0x95, 0x54] = PASS
   \<and> check_ID_register [0xAD, 0x00, 0x10, 0x95, 0x54] = FAIL
   \<and> fst (main_read_ID [0, 0, 0, 0, 0] (main_setup (session_start id_device (\<lambda>k. 0)))) = PASS
   \<and> fst (main_read_ID [0, 0, 0, 0, 0] (main_setup (session_start blank_device (\<lambda>k. 0)))) = FAIL"
proof -
  let ?a = "main_setup (session_start id_device (\<lambda>k. 0))"
  let ?b = "main_setup (session_start blank_device (\<lambda>k. 0))"
  have l: "length [0xAD, 0xDC, 0x10, 0x95, 0x54 :: byte] = 5"
    "length [0xAD, 0x00, 0x10, 0x95, 0x54 :: byte] = 5" by simp_all
  have a: "controlbus_value ?a AND PIN_nCE = 0 \<and> controlbus_value ?a AND PIN_nRE \<noteq> 0
        \<and> length [0, 0, 0, 0, 0 :: byte] = 5"
    by (simp add: main_setup_eq pin_defs)
  have b: "controlbus_value ?b AND PIN_nCE = 0 \<and> controlbus_value ?b AND PIN_nRE \<noteq> 0
        \<and> length [0, 0, 0, 0, 0 :: byte] = 5"
    by (simp add: main_setup_eq pin_defs)
  have sa: "samples ?a 5 = [0xAD, 0xDC, 0x10, 0x95, 0x54]"
    by (simp add: samples_5 main_setup_eq session_start_def id_device_def)
  have sb: "samples ?b 5 = [0xAD, 0x00, 0x10, 0x95, 0x54]"
    by (simp add: samples_5 main_setup_eq session_start_def blank_device_def)
  show ?thesis
    using check_ID_register_match_iff [of "[0xAD, 0xDC, 0x10, 0x95, 0x54]" ?a] l(1)
      check_ID_register_match_iff [of "[0xAD, 0x00, 0x10, 0x95, 0x54]" ?b] l(2)
      check_ID_register_match_iff [of "[0, 0, 0, 0, 0]" ?a] a
      check_ID_register_match_iff [of "[0, 0, 0, 0, 0]" ?b] b
    unfolding sa sb by simp
qed

text \<open>
  Claim C8. Whenever \<^verbatim>\<open>erase_block\<close> returns, it returns 1 if bit 0 of the status byte is set and
  0 otherwise, and nWP is cleared in the held control byte on both paths. With nCE low and nRE
  high and a device that becomes ready, it does return, and the status byte is the next sample
  of the I/O channel.
\<close>

theorem erase_block_status_result:
  "(erase_block nBlockId status_register s = Some (ret, st, s') \<longrightarrow>
      ret = (if st AND STATUSREG_IO0 \<noteq> 0 then 1 else 0)
      \<and> controlbus_value s' AND PIN_nWP = 0)
   \<and> (controlbus_value s AND PIN_nCE = 0 \<and> controlbus_value s AND PIN_nRE \<noteq> 0
        \<and> (\<exists>k. rdy_at s k) \<longrightarrow>
      (\<exists>s'. erase_block nBlockId status_register s
              = Some (if iobus_pins s (iobus_reads s) AND STATUSREG_IO0 \<noteq> 0 then 1 else 0,
                      iobus_pins s (iobus_reads s), s')))"
proof -
  have 1: "ret = (if st AND STATUSREG_IO0 \<noteq> 0 then 1 else 0)
      \<and> controlbus_value s' AND PIN_nWP = 0"
    if "erase_block nBlockId status_register s = Some (ret, st, s')"
    using that
    by (auto simp add: erase_block_def Let_def controlbus_pin_set_def xor_ff and_not_and_self
        split: option.splits if_splits)
  have 2: "\<exists>s'. erase_block nBlockId status_register s
              = Some (if iobus_pins s (iobus_reads s) AND STATUSREG_IO0 \<noteq> 0 then 1 else 0,
                      iobus_pins s (iobus_reads s), s')"
    if a: "controlbus_value s AND PIN_nCE = 0 \<and> controlbus_value s AND PIN_nRE \<noteq> 0
        \<and> (\<exists>k. rdy_at s k)"
  proof -
    from a obtain m where m: "rdy_at s m" "\<forall>j<m. \<not> rdy_at s j" using first_rdy by blast
    from a have nCE: "controlbus_value s AND PIN_nCE = 0"
      and nRE: "controlbus_value s AND PIN_nRE \<noteq> 0" by simp_all
    show ?thesis
      unfolding erase_block_ok [OF nCE nRE m] by blast
  qed
  from 1 2 show ?thesis by blast
qed

text \<open>The theorem at concrete inputs that meet its hypotheses.\<close>

theorem erase_block_status_result_witness:
  "(\<exists>s'. erase_block 0 0 (erase_ready 0xE1) = Some (1, 0xE1, s') \<and> controlbus_value s' AND PIN_nWP = 0)
   \<and> (\<exists>s'. erase_block 0 0 (erase_ready 0xE0) = Some (0, 0xE0, s') \<and> controlbus_value s' AND PIN_nWP = 0)"
proof -
  have pre: "controlbus_value (erase_ready st) AND PIN_nCE = 0
      \<and> controlbus_value (erase_ready st) AND PIN_nRE \<noteq> 0
      \<and> (\<exists>k. rdy_at (erase_ready st) k)" for st
  proof -
    have "rdy_at (erase_ready st) 0"
      by (simp add: rdy_at_def erase_ready_def main_setup_eq session_start_def pin_defs)
    then show ?thesis
      by (auto simp add: erase_ready_def main_setup_eq pin_defs)
  qed
  have st: "iobus_pins (erase_ready st) (iobus_reads (erase_ready st)) = st" for st
    by (simp add: erase_ready_def main_setup_eq session_start_def)
  have "\<exists>s'. erase_block 0 0 (erase_ready 0xE1) = Some (1, 0xE1, s')"
    using erase_block_status_result [of 0 0 "erase_ready 0xE1" 0 0 "erase_ready 0xE1"]
      pre [of "0xE1"]
    unfolding st by (simp add: STATUSREG_IO0_def)
  then obtain s1 where 1: "erase_block 0 0 (erase_ready 0xE1) = Some (1, 0xE1, s1)" by blast
  have "\<exists>s'. erase_block 0 0 (erase_ready 0xE0) = Some (0, 0xE0, s')"
    using erase_block_status_result [of 0 0 "erase_ready 0xE0" 0 0 "erase_ready 0xE0"]
      pre [of "0xE0"]
    unfolding st by (simp add: STATUSREG_IO0_def)
  then obtain s0 where 0: "erase_block 0 0 (erase_ready 0xE0) = Some (0, 0xE0, s0)" by blast
  from erase_block_status_result [of 0 0 "erase_ready 0xE1" 1 "0xE1" s1] 1
  have "controlbus_value s1 AND PIN_nWP = 0" by blast
  moreover from erase_block_status_result [of 0 0 "erase_ready 0xE0" 0 "0xE0" s0] 0
  have "controlbus_value s0 AND PIN_nWP = 0" by blast
  ultimately show ?thesis using 0 1 by blast
qed

text \<open>
  Claim C9. One page read of \<^verbatim>\<open>dump_memory\<close>, started with nCE low and nRE high on a device
  whose \<open>k\<close>-th coming control sample is the first with RDY set and with a page buffer of 2112
  bytes, returns the next 2112 samples of the I/O channel, and adds to the hardware trace exactly:
  the command sequence for \<open>0x00\<close>, the address sequence for the five cycles of the address, the
  command sequence for \<open>0x30\<close>, \<open>k + 1\<close> reads of the control channel, and the data-output
  sequence for 2112 bytes, in this order and with nothing between them. It leaves nCE low and
  nRE high, so the next page read starts under the same conditions.
\<close>

theorem dump_memory_page_sequence:
  assumes "controlbus_value s AND PIN_nCE = 0" and "controlbus_value s AND PIN_nRE \<noteq> 0"
    and "rdy_at s k" and "\<forall>j<k. \<not> rdy_at s j"
    and "length mem_large_block = 2112"
  shows "dump_memory_page mem_address mem_large_block s =
    Some (samples s 2112,
      s\<lparr>iobus_value := 0x30,
        controlbus_value := ((controlbus_value s OR PIN_nWE) AND NOT PIN_CLE) AND NOT PIN_ALE,
        iobus_direction := IOBUS_OUT,
        iobus_reads := iobus_reads s + 2112,
        controlbus_reads := controlbus_reads s + (k + 1),
        hw_trace := hw_trace s
          @ latchCommand_events (controlbus_value s) 0x00
          @ latchAddress_events ((controlbus_value s OR PIN_nWE) AND NOT PIN_CLE)
              (get_address_cycle_map_x8 mem_address)
          @ latchCommand_events (((controlbus_value s OR PIN_nWE) AND NOT PIN_CLE) AND NOT PIN_ALE) 0x30
          @ replicate (k + 1) CTRL_READ_PINS
          @ latchDataOut_events (((controlbus_value s OR PIN_nWE) AND NOT PIN_CLE) AND NOT PIN_ALE) 2112\<rparr>)
    \<and> (((controlbus_value s OR PIN_nWE) AND NOT PIN_CLE) AND NOT PIN_ALE) AND PIN_nCE = 0
    \<and> (((controlbus_value s OR PIN_nWE) AND NOT PIN_CLE) AND NOT PIN_ALE) AND PIN_nRE \<noteq> 0"
proof -
  have "2112 \<le> length mem_large_block" using assms(5) by simp
  from dump_memory_page_ok [OF assms(1-4) this, of mem_address] assms(5)
  have "dump_memory_page mem_address mem_large_block s =
    Some (samples s 2112,
      s\<lparr>iobus_value := 0x30,
        controlbus_value := ((controlbus_value s OR PIN_nWE) AND NOT PIN_CLE) AND NOT PIN_ALE,
        iobus_direction := IOBUS_OUT,
        iobus_reads := iobus_reads s + 2112,
        controlbus_reads := controlbus_reads s + (k + 1),
        hw_trace := hw_trace s
          @ latchCommand_events (controlbus_value s) 0x00
          @ latchAddress_events ((controlbus_value s OR PIN_nWE) AND NOT PIN_CLE)
              (get_address_cycle_map_x8 mem_address)
          @ latchCommand_events (((controlbus_value s OR PIN_nWE) AND NOT PIN_CLE) AND NOT PIN_ALE) 0x30
          @ replicate (k + 1) CTRL_READ_PINS
          @ latchDataOut_events (((controlbus_value s OR PIN_nWE) AND NOT PIN_CLE) AND NOT PIN_ALE) 2112\<rparr>)"
    by simp
  moreover have "(((controlbus_value s OR PIN_nWE) AND NOT PIN_CLE) AND NOT PIN_ALE) AND PIN_nCE = 0"
    using assms(1) by (simp add: pin_algebra)
  moreover have "(((controlbus_value s OR PIN_nWE) AND NOT PIN_CLE) AND NOT PIN_ALE) AND PIN_nRE \<noteq> 0"
    using assms(2) by (simp add: pin_algebra)
  ultimately show ?thesis by blast
qed

text \<open>The theorem at concrete inputs that meet its hypotheses.\<close>

theorem dump_memory_page_sequence_witness:
  "dump_memory_page 2112 (replicate 2112 0) page_ready =
     Some (samples page_ready 2112,
       page_ready\<lparr>iobus_value := 0x30, controlbus_value := 0x18,
         iobus_direction := IOBUS_OUT, iobus_reads := 2118, controlbus_reads := 4,
         hw_trace := hw_trace page_ready
           @ latchCommand_events 0x18 0x00
           @ latchAddress_events 0x18 [0x40, 0x08, 0x00, 0x00, 0x00]
           @ latchCommand_events 0x18 0x30
           @ [CTRL_READ_PINS, CTRL_READ_PINS, CTRL_READ_PINS]
           @ latchDataOut_events 0x18 2112\<rparr>)"
proof -
  have pre: "controlbus_value page_ready AND PIN_nCE = 0"
    "controlbus_value page_ready AND PIN_nRE \<noteq> 0"
    "rdy_at page_ready 2" "\<forall>j<2. \<not> rdy_at page_ready j"
    "length (replicate 2112 (0 :: byte)) = 2112"
    by (simp_all add: page_ready_fields rdy_at_def pin_defs)
  have a: "get_address_cycle_map_x8 2112 = [0x40, 0x08, 0x00, 0x00, 0x00]"
    by (simp add: get_address_cycle_map_x8_def)
  have r: "replicate (2 + 1) CTRL_READ_PINS = [CTRL_READ_PINS, CTRL_READ_PINS, CTRL_READ_PINS]"
    by (simp add: eval_nat_numeral)
  show ?thesis
    using dump_memory_page_sequence [OF pre, of 2112]
    unfolding a r page_ready_fields
    by (simp add: pin_defs)
qed

text \<open>
  Claim C2. The claim takes the erased address to be \<open>blockId * 64 * 2112\<close>. The code computes
  \<^verbatim>\<open>2048 * 64 * nBlockId\<close>, under the comment \<^verbatim>\<open>(2K + 64) bytes x 64 pages per block\<close>. For block 1 on
  a ready device the bytes written to the I/O bus are the opcode \<open>0x60\<close>, the row cycles
  \<open>0x20, 0x00, 0x00\<close> of address \<open>0x20000\<close>, then \<open>0xD0\<close> and \<open>0x70\<close> (the leading zero byte
  is the reset of the bus in \<open>main_setup\<close>); the row cycles of \<open>1 * 64 * 2112\<close> are
  \<open>0x21, 0x00, 0x00\<close>.
\<close>

theorem erase_block_row_address_block_1:
  "map_option (\<lambda>r. io_writes (hw_trace (snd (snd r)))) (erase_block 1 0 (erase_ready 0xE0))
     = Some [0x00, 0x60, 0x20, 0x00, 0x00, 0xD0, 0x70]
   \<and> drop 2 (get_address_cycle_map_x8 (2048 * 64 * 1)) = [0x20, 0x00, 0x00]
   \<and> drop 2 (get_address_cycle_map_x8 (1 * 64 * 2112)) = [0x21, 0x00, 0x00]"
proof -
  have pre: "controlbus_value (erase_ready 0xE0) AND PIN_nCE = 0"
    "controlbus_value (erase_ready 0xE0) AND PIN_nRE \<noteq> 0"
    "rdy_at (erase_ready 0xE0) 0" "\<forall>j<0. \<not> rdy_at (erase_ready 0xE0) j"
    by (simp_all add: erase_ready_def main_setup_eq session_start_def rdy_at_def pin_defs)
  show ?thesis
    unfolding erase_block_ok [OF pre]
    by (simp add: erase_ready_def main_setup_eq session_start_def get_address_cycle_map_x8_def
        latchCommand_events_def latchAddress_events_def latchDataOut_events_def)
qed

text \<open>
  Claim C3. The claim says that \<^verbatim>\<open>erase_block\<close> flushes the control bus after it clears nWP and
  before it returns. On a ready device, erasing block 0 returns 0 with nWP cleared in the held
  control byte (\<open>0x18\<close>), but the last byte written to the control channel is \<open>0x38\<close>, with
  nWP still set, and the last hardware event of the call is the switch of the data bus back to
  output: no flush follows the final \<^verbatim>\<open>controlbus_pin_set(PIN_nWP, OFF)\<close>.
\<close>

theorem erase_block_write_protect_not_flushed:
  "map_option (\<lambda>r. (fst r, controlbus_value (snd (snd r)),
                     last (ctrl_writes (hw_trace (snd (snd r)))),
                     last (hw_trace (snd (snd r)))))
     (erase_block 0 0 (erase_ready 0xE0))
   = Some (0, 0x18, 0x38, IO_SET_DIRECTION IOBUS_OUT)"
proof -
  have pre: "controlbus_value (erase_ready 0xE0) AND PIN_nCE = 0"
    "controlbus_value (erase_ready 0xE0) AND PIN_nRE \<noteq> 0"
    "rdy_at (erase_ready 0xE0) 0" "\<forall>j<0. \<not> rdy_at (erase_ready 0xE0) j"
    by (simp_all add: erase_ready_def main_setup_eq session_start_def rdy_at_def pin_defs)
  show ?thesis
    unfolding erase_block_ok [OF pre]
    by (simp add: erase_ready_def main_setup_eq session_start_def get_address_cycle_map_x8_def
        latchCommand_events_def latchAddress_events_def latchDataOut_events_def pin_defs
        STATUSREG_IO0_def)
qed

end
